theory Spec2Isabelle
  imports Main "HOL-Library.Multiset"
begin

section \<open>Data model (supabase/migrations/20250824082828_jolly_sun.sql, lib/supabase.ts)\<close>

text \<open>
  Identifiers are uuids, of which only equality is used: they are natural numbers here.
  A \<open>timestamptz\<close> is a number of seconds since the epoch and a \<open>date\<close> a number of days
  since the epoch, both in the session time zone, so that SQL's \<open>DATE(t)\<close> drops the time
  of day. \<open>CURRENT_DATE\<close> is \<open>DATE(now())\<close>, and \<open>now()\<close> is the same instant in every
  statement of one call of a plpgsql function.
\<close>

type_synonym uuid = nat
type_synonym timestamptz = int
type_synonym date = int

definition DATE :: "timestamptz \<Rightarrow> date" where
  "DATE t = t div 86400"

datatype room_status = Available | Occupied | Maintenance | Cleaning

datatype booking_status = Confirmed | Checked_in | Checked_out | Cancelled

text \<open>
  The rows of \<open>rooms\<close>, \<open>bookings\<close>, \<open>auto_checkout_logs\<close> and \<open>room_status_history\<close>.
  Nullable columns are options. Columns that no operation below reads or writes
  (room type, price per night, occupancy, amenities, guest email and phone, payment status,
  the generated ids of the two audit tables) are left out. \<open>total_amount\<close> is
  \<open>decimal(10,2)\<close>: it is counted in hundredths.
\<close>

record room =
  r_id :: uuid
  r_hotel_id :: "uuid option"
  r_room_number :: string
  r_status :: room_status
  r_last_checkout :: "timestamptz option"
  r_updated_at :: timestamptz

record booking =
  b_id :: uuid
  b_hotel_id :: "uuid option"
  b_room_id :: "uuid option"
  b_guest_name :: string
  b_check_in_date :: date
  b_check_out_date :: date
  b_actual_check_in :: "timestamptz option"
  b_actual_check_out :: "timestamptz option"
  b_status :: booking_status
  b_total_amount :: int
  b_auto_checkout :: bool
  b_created_at :: timestamptz
  b_updated_at :: timestamptz

record auto_checkout_log =
  l_hotel_id :: "uuid option"
  l_room_id :: "uuid option"
  l_booking_id :: "uuid option"
  l_checkout_time :: timestamptz
  l_reason :: string
  l_created_at :: timestamptz

record room_status_change =
  h_room_id :: "uuid option"
  h_old_status :: "room_status option"
  h_new_status :: "room_status option"
  h_changed_by :: "uuid option"
  h_change_reason :: "string option"
  h_created_at :: timestamptz

text \<open>The database: one list of rows per table; of \<open>hotels\<close> only the ids matter.\<close>

record db =
  hotels :: "uuid list"
  rooms :: "room list"
  bookings :: "booking list"
  auto_checkout_logs :: "auto_checkout_log list"
  room_status_history :: "room_status_change list"

section \<open>The reclamation routine: \<open>auto_checkout_rooms()\<close>\<close>

text \<open>The \<open>WHERE\<close> clause of the first statement (lines 168-170).\<close>

definition stay_expired :: "timestamptz \<Rightarrow> booking \<Rightarrow> bool" where
  "stay_expired now b \<longleftrightarrow> b_status b = Checked_in \<and> b_check_out_date b \<le> DATE now"

text \<open>The \<open>SET\<close> clause of the first statement (lines 163-167).\<close>

definition auto_check_out :: "timestamptz \<Rightarrow> booking \<Rightarrow> booking" where
  "auto_check_out now b =
     b\<lparr>b_status := Checked_out, b_actual_check_out := Some now,
       b_auto_checkout := True, b_updated_at := now\<rparr>"

text \<open>
  The condition the three later statements use to find the bookings again
  (lines 182-184 and 197-199); a \<open>NULL\<close> timestamp satisfies no comparison.
\<close>

definition auto_checked_out_today :: "timestamptz \<Rightarrow> booking \<Rightarrow> bool" where
  "auto_checked_out_today now b \<longleftrightarrow>
     b_status b = Checked_out \<and> b_auto_checkout b \<and>
     (case b_actual_check_out b of None \<Rightarrow> False | Some t \<Rightarrow> DATE t = DATE now)"

text \<open>The \<open>WHERE\<close> clause of the last statement (lines 209-211).\<close>

definition available_since_today :: "timestamptz \<Rightarrow> room \<Rightarrow> bool" where
  "available_since_today now r \<longleftrightarrow>
     r_status r = Available \<and>
     (case r_last_checkout r of None \<Rightarrow> False | Some t \<Rightarrow> DATE t = DATE now)"

definition make_available :: "timestamptz \<Rightarrow> room \<Rightarrow> room" where
  "make_available now r =
     r\<lparr>r_status := Available, r_last_checkout := Some now, r_updated_at := now\<rparr>"

definition log_of :: "timestamptz \<Rightarrow> booking \<Rightarrow> auto_checkout_log" where
  "log_of now b =
     \<lparr>l_hotel_id = b_hotel_id b, l_room_id = b_room_id b, l_booking_id = Some (b_id b),
      l_checkout_time = now, l_reason = ''daily_auto_checkout_10am'', l_created_at = now\<rparr>"

definition change_of :: "timestamptz \<Rightarrow> room \<Rightarrow> room_status_change" where
  "change_of now r =
     \<lparr>h_room_id = Some (r_id r), h_old_status = Some Occupied, h_new_status = Some Available,
      h_changed_by = None, h_change_reason = Some ''auto_checkout_daily_10am'',
      h_created_at = now\<rparr>"

text \<open>
  The four statements in their order, each reading what the ones before it wrote:
  the update of \<open>bookings\<close>, the update of \<open>rooms\<close> whose id is among the \<open>room_id\<close>s
  selected from \<open>bookings\<close>, the insert into \<open>auto_checkout_logs\<close>, the insert into
  \<open>room_status_history\<close>. The clock reading \<open>now\<close> is a parameter.
\<close>

definition auto_checkout_rooms :: "timestamptz \<Rightarrow> db \<Rightarrow> db" where
  "auto_checkout_rooms now d =
     (let bs = map (\<lambda>b. if stay_expired now b then auto_check_out now b else b) (bookings d);
          ids = map b_room_id (filter (auto_checked_out_today now) bs);
          rs = map (\<lambda>r. if Some (r_id r) \<in> set ids then make_available now r else r) (rooms d);
          ls = auto_checkout_logs d @ map (log_of now) (filter (auto_checked_out_today now) bs);
          hs = room_status_history d @ map (change_of now) (filter (available_since_today now) rs)
      in d\<lparr>rooms := rs, bookings := bs, auto_checkout_logs := ls, room_status_history := hs\<rparr>)"

section \<open>The client API (lib/supabase.ts)\<close>

text \<open>
  What a call of the store can report. \<open>PGRST116\<close> is the answer to \<open>.single()\<close> when the
  statement did not return exactly one row; the statement is then rolled back. The next four
  are the constraints of the \<open>bookings\<close> table. \<open>Unavailable\<close> stands for every failure the
  model does not compute (connectivity, row-level security, a malformed value): each call
  takes a parameter saying whether the store fails in this way, and a failed call changes
  nothing.
\<close>

datatype pg_error =
    PGRST116
  | NumericOverflow
  | NotNullViolation
  | UniqueViolation
  | ForeignKeyViolation
  | Unavailable

subsection \<open>\<open>bookingAPI.checkIn\<close>\<close>

text \<open>
  The two \<open>new Date()\<close> of the first write are the clock readings \<open>t_in\<close> and \<open>t_upd\<close>.
  The second write is awaited and its result is dropped: \<open>fail2\<close> says whether it failed.
  A \<open>room_id\<close> that is \<open>NULL\<close> matches no room.
\<close>

definition check_in_row :: "timestamptz \<Rightarrow> timestamptz \<Rightarrow> booking \<Rightarrow> booking" where
  "check_in_row t_in t_upd b =
     b\<lparr>b_status := Checked_in, b_actual_check_in := Some t_in, b_updated_at := t_upd\<rparr>"

definition checkIn ::
  "uuid \<Rightarrow> timestamptz \<Rightarrow> timestamptz \<Rightarrow> pg_error option \<Rightarrow> pg_error option \<Rightarrow> db
     \<Rightarrow> (pg_error + booking) \<times> db" where
  "checkIn bookingId t_in t_upd fail1 fail2 d =
     (case fail1 of
        Some e \<Rightarrow> (Inl e, d)
      | None \<Rightarrow>
          (case filter (\<lambda>b. b_id b = bookingId) (bookings d) of
             [b] \<Rightarrow>
               (let data = check_in_row t_in t_upd b;
                    d1 = d\<lparr>bookings :=
                           map (\<lambda>x. if b_id x = bookingId then check_in_row t_in t_upd x else x)
                             (bookings d)\<rparr>
                in (Inr data,
                    (case fail2 of
                       Some e \<Rightarrow> d1
                     | None \<Rightarrow>
                         d1\<lparr>rooms :=
                              map (\<lambda>r. if Some (r_id r) = b_room_id data
                                       then r\<lparr>r_status := Occupied\<rparr> else r)
                                (rooms d1)\<rparr>)))
           | _ \<Rightarrow> (Inl PGRST116, d)))"

subsection \<open>\<open>bookingAPI.checkOut\<close>\<close>

text \<open>
  As \<open>checkIn\<close>; the \<open>new Date()\<close> of the second write is a third clock reading, \<open>t_room\<close>,
  taken after the first write has returned.
\<close>

definition check_out_row :: "timestamptz \<Rightarrow> timestamptz \<Rightarrow> booking \<Rightarrow> booking" where
  "check_out_row t_out t_upd b =
     b\<lparr>b_status := Checked_out, b_actual_check_out := Some t_out, b_updated_at := t_upd\<rparr>"

definition checkOut ::
  "uuid \<Rightarrow> timestamptz \<Rightarrow> timestamptz \<Rightarrow> timestamptz \<Rightarrow> pg_error option \<Rightarrow> pg_error option
     \<Rightarrow> db \<Rightarrow> (pg_error + booking) \<times> db" where
  "checkOut bookingId t_out t_upd t_room fail1 fail2 d =
     (case fail1 of
        Some e \<Rightarrow> (Inl e, d)
      | None \<Rightarrow>
          (case filter (\<lambda>b. b_id b = bookingId) (bookings d) of
             [b] \<Rightarrow>
               (let data = check_out_row t_out t_upd b;
                    d1 = d\<lparr>bookings :=
                           map (\<lambda>x. if b_id x = bookingId then check_out_row t_out t_upd x else x)
                             (bookings d)\<rparr>
                in (Inr data,
                    (case fail2 of
                       Some e \<Rightarrow> d1
                     | None \<Rightarrow>
                         d1\<lparr>rooms :=
                              map (\<lambda>r. if Some (r_id r) = b_room_id data
                                       then r\<lparr>r_status := Available, r_last_checkout := Some t_room\<rparr>
                                       else r)
                                (rooms d1)\<rparr>)))
           | _ \<Rightarrow> (Inl PGRST116, d)))"

subsection \<open>\<open>bookingAPI.createBooking\<close>\<close>

text \<open>
  The argument is a \<open>Partial<Booking>\<close>: every field may be missing. The insert fills a
  missing column with its default (a generated id \<open>fresh\<close>, status \<open>confirmed\<close>, amount 0,
  \<open>auto_checkout\<close> false, the time \<open>now\<close>, \<open>NULL\<close> otherwise) and the table's constraints
  decide: \<open>decimal(10,2)\<close> holds less than \<open>10^8\<close> in absolute value, \<open>guest_name\<close> and the
  two dates are \<open>NOT NULL\<close>, the id is the primary key, \<open>hotel_id\<close> and \<open>room_id\<close> are
  foreign keys. The client code checks nothing before the insert.
\<close>

record booking_input =
  i_id :: "uuid option"
  i_hotel_id :: "uuid option"
  i_room_id :: "uuid option"
  i_guest_name :: "string option"
  i_check_in_date :: "date option"
  i_check_out_date :: "date option"
  i_actual_check_in :: "timestamptz option"
  i_actual_check_out :: "timestamptz option"
  i_status :: "booking_status option"
  i_total_amount :: "int option"
  i_auto_checkout :: "bool option"
  i_created_at :: "timestamptz option"
  i_updated_at :: "timestamptz option"

definition or_default :: "'a option \<Rightarrow> 'a \<Rightarrow> 'a" where
  "or_default v dflt = (case v of None \<Rightarrow> dflt | Some x \<Rightarrow> x)"

definition references :: "uuid option \<Rightarrow> uuid list \<Rightarrow> bool" where
  "references fk ids = (case fk of None \<Rightarrow> True | Some k \<Rightarrow> k \<in> set ids)"

definition createBooking ::
  "booking_input \<Rightarrow> uuid \<Rightarrow> timestamptz \<Rightarrow> pg_error option \<Rightarrow> db \<Rightarrow> (pg_error + booking) \<times> db" where
  "createBooking booking fresh now fail d =
     (case fail of
        Some e \<Rightarrow> (Inl e, d)
      | None \<Rightarrow>
          if 10 ^ 10 \<le> \<bar>or_default (i_total_amount booking) 0\<bar> then (Inl NumericOverflow, d)
          else
            (case (i_guest_name booking, i_check_in_date booking, i_check_out_date booking) of
               (Some name, Some date_in, Some date_out) \<Rightarrow>
                 (let data =
                        \<lparr>b_id = or_default (i_id booking) fresh,
                         b_hotel_id = i_hotel_id booking,
                         b_room_id = i_room_id booking,
                         b_guest_name = name,
                         b_check_in_date = date_in,
                         b_check_out_date = date_out,
                         b_actual_check_in = i_actual_check_in booking,
                         b_actual_check_out = i_actual_check_out booking,
                         b_status = or_default (i_status booking) Confirmed,
                         b_total_amount = or_default (i_total_amount booking) 0,
                         b_auto_checkout = or_default (i_auto_checkout booking) False,
                         b_created_at = or_default (i_created_at booking) now,
                         b_updated_at = or_default (i_updated_at booking) now\<rparr>
                  in if b_id data \<in> set (map b_id (bookings d)) then (Inl UniqueViolation, d)
                     else if \<not> (references (b_hotel_id data) (hotels d)
                                 \<and> references (b_room_id data) (map r_id (rooms d)))
                       then (Inl ForeignKeyViolation, d)
                     else (Inr data, d\<lparr>bookings := bookings d @ [data]\<rparr>))
             | _ \<Rightarrow> (Inl NotNullViolation, d)))"

subsection \<open>\<open>BookingSystem.handleBookingSubmit\<close> (components/RoomCard.tsx)\<close>

text \<open>
  The form's state, with the two dates already read as dates. The handler returns without
  a call when no room or no hotel is selected; otherwise it calls \<open>createBooking\<close> with
  status \<open>confirmed\<close> and shows one of two alerts.
\<close>

record BookingFormData =
  guestName :: string
  checkInDate :: date
  checkOutDate :: date
  totalAmount :: int

definition form_booking :: "BookingFormData \<Rightarrow> room \<Rightarrow> uuid \<Rightarrow> booking_input" where
  "form_booking bookingForm selectedRoom selectedHotel =
     \<lparr>i_id = None, i_hotel_id = Some selectedHotel, i_room_id = Some (r_id selectedRoom),
      i_guest_name = Some (guestName bookingForm),
      i_check_in_date = Some (checkInDate bookingForm),
      i_check_out_date = Some (checkOutDate bookingForm),
      i_actual_check_in = None, i_actual_check_out = None,
      i_status = Some Confirmed, i_total_amount = Some (totalAmount bookingForm),
      i_auto_checkout = None, i_created_at = None, i_updated_at = None\<rparr>"

definition handleBookingSubmit ::
  "BookingFormData \<Rightarrow> room option \<Rightarrow> uuid option \<Rightarrow> uuid \<Rightarrow> timestamptz \<Rightarrow> pg_error option
     \<Rightarrow> db \<Rightarrow> string option \<times> db" where
  "handleBookingSubmit bookingForm selectedRoom selectedHotel fresh now fail d =
     (case (selectedRoom, selectedHotel) of
        (Some r, Some h) \<Rightarrow>
          (case createBooking (form_booking bookingForm r h) fresh now fail d of
             (Inr data, d') \<Rightarrow> (Some ''Booking created successfully!'', d')
           | (Inl e, d') \<Rightarrow> (Some ''Error creating booking'', d'))
      | _ \<Rightarrow> (None, d))"

subsection \<open>\<open>autoCheckoutAPI.getAutoCheckoutLogs\<close>\<close>

text \<open>
  The rows of the hotel, newest first, the first 50 of them, each with the number of its
  room and the name of its guest (the two embedded resources). SQL leaves the order of rows
  with equal \<open>created_at\<close> to the store; here they keep the table's order.
\<close>

definition newest_first :: "auto_checkout_log list \<Rightarrow> auto_checkout_log list" where
  "newest_first ls = sort_key (\<lambda>l. - l_created_at l) ls"

definition embed :: "db \<Rightarrow> auto_checkout_log \<Rightarrow> auto_checkout_log \<times> string option \<times> string option" where
  "embed d l =
     (l,
      map_option r_room_number (find (\<lambda>r. Some (r_id r) = l_room_id l) (rooms d)),
      map_option b_guest_name (find (\<lambda>b. Some (b_id b) = l_booking_id l) (bookings d)))"

definition getAutoCheckoutLogs ::
  "uuid \<Rightarrow> pg_error option \<Rightarrow> db
     \<Rightarrow> pg_error + (auto_checkout_log \<times> string option \<times> string option) list" where
  "getAutoCheckoutLogs hotelId fail d =
     (case fail of
        Some e \<Rightarrow> Inl e
      | None \<Rightarrow>
          Inr (map (embed d)
                 (take 50 (newest_first
                    (filter (\<lambda>l. l_hotel_id l = Some hotelId) (auto_checkout_logs d))))))"

section \<open>Sequences of operations\<close>

text \<open>
  The operations on bookings and rooms with their arguments, and the state a sequence of
  them leaves, whatever each of them returned.
\<close>

datatype operation =
    CreateBooking booking_input uuid timestamptz "pg_error option"
  | CheckIn uuid timestamptz timestamptz "pg_error option" "pg_error option"
  | CheckOut uuid timestamptz timestamptz timestamptz "pg_error option" "pg_error option"
  | Reclaim timestamptz

fun exec :: "operation \<Rightarrow> db \<Rightarrow> db" where
  "exec (CreateBooking booking fresh now fail) d = snd (createBooking booking fresh now fail d)"
| "exec (CheckIn bookingId t_in t_upd fail1 fail2) d =
     snd (checkIn bookingId t_in t_upd fail1 fail2 d)"
| "exec (CheckOut bookingId t_out t_upd t_room fail1 fail2) d =
     snd (checkOut bookingId t_out t_upd t_room fail1 fail2 d)"
| "exec (Reclaim now) d = auto_checkout_rooms now d"

fun run :: "operation list \<Rightarrow> db \<Rightarrow> db" where
  "run [] d = d"
| "run (x # xs) d = run xs (exec x d)"

section \<open>Sample data\<close>

text \<open>
  Day 19732 is 2024-01-10; \<open>ten_am\<close> is 10:00:00 of that day. Room 101 is occupied by
  booking 1, whose stay ends that day; booking 2 of room 102 ends the day after.
\<close>

definition ten_am :: timestamptz where
  "ten_am = 19732 * 86400 + 36000"

definition room101 :: room where
  "room101 = \<lparr>r_id = 101, r_hotel_id = Some 7, r_room_number = ''Room 101'',
     r_status = Occupied, r_last_checkout = None, r_updated_at = 0\<rparr>"

definition room102 :: room where
  "room102 = \<lparr>r_id = 102, r_hotel_id = Some 7, r_room_number = ''Room 102'',
     r_status = Occupied, r_last_checkout = None, r_updated_at = 0\<rparr>"

definition stay1 :: booking where
  "stay1 = \<lparr>b_id = 1, b_hotel_id = Some 7, b_room_id = Some 101, b_guest_name = ''Ada'',
     b_check_in_date = 19730, b_check_out_date = 19732, b_actual_check_in = Some 1704700000,
     b_actual_check_out = None, b_status = Checked_in, b_total_amount = 20000,
     b_auto_checkout = False, b_created_at = 1704600000, b_updated_at = 1704700000\<rparr>"

definition stay2 :: booking where
  "stay2 = \<lparr>b_id = 2, b_hotel_id = Some 7, b_room_id = Some 102, b_guest_name = ''Bob'',
     b_check_in_date = 19731, b_check_out_date = 19733, b_actual_check_in = Some 1704800000,
     b_actual_check_out = None, b_status = Checked_in, b_total_amount = 20000,
     b_auto_checkout = False, b_created_at = 1704600000, b_updated_at = 1704800000\<rparr>"

definition hotel_day :: db where
  "hotel_day = \<lparr>hotels = [7], rooms = [room101, room102], bookings = [stay1, stay2],
     auto_checkout_logs = [], room_status_history = []\<rparr>"

definition maintenance_day :: db where
  "maintenance_day = hotel_day\<lparr>rooms := [room101\<lparr>r_status := Maintenance\<rparr>, room102]\<rparr>"

text \<open>
  A hotel with one free room and no booking yet, two reservations of that room for
  overlapping nights, and the arrival of both guests.
\<close>

definition room201 :: room where
  "room201 = \<lparr>r_id = 201, r_hotel_id = Some 7, r_room_number = ''Room 201'',
     r_status = Available, r_last_checkout = None, r_updated_at = 0\<rparr>"

definition front_desk :: db where
  "front_desk = \<lparr>hotels = [7], rooms = [room201], bookings = [],
     auto_checkout_logs = [], room_status_history = []\<rparr>"

definition reservation :: "string \<Rightarrow> date \<Rightarrow> date \<Rightarrow> int \<Rightarrow> booking_input" where
  "reservation name date_in date_out amount =
     \<lparr>i_id = None, i_hotel_id = Some 7, i_room_id = Some 201, i_guest_name = Some name,
      i_check_in_date = Some date_in, i_check_out_date = Some date_out,
      i_actual_check_in = None, i_actual_check_out = None, i_status = Some Confirmed,
      i_total_amount = Some amount, i_auto_checkout = None, i_created_at = None,
      i_updated_at = None\<rparr>"

definition two_arrivals :: "operation list" where
  "two_arrivals =
     [CreateBooking (reservation ''Cy'' 19732 19734 20000) 11 1704870000 None,
      CreateBooking (reservation ''Di'' 19733 19735 20000) 12 1704870060 None,
      CheckIn 11 1704880000 1704880000 None None,
      CheckIn 12 1704880900 1704880900 None None]"

text \<open>
  A morning at \<open>hotel_day\<close>: the reclamation, a new reservation of room 101 and its
  check-in, and the manual check-out of booking 2.
\<close>

definition busy_morning :: "operation list" where
  "busy_morning =
     [Reclaim ten_am,
      CreateBooking ((reservation ''Ed'' 19732 19733 10000)\<lparr>i_room_id := Some 101\<rparr>)
        3 (ten_am + 600) None,
      CheckIn 3 (ten_am + 900) (ten_am + 900) None None,
      CheckOut 2 (ten_am + 1200) (ten_am + 1200) (ten_am + 1201) None None]"

section \<open>The invariants the specification states\<close>

text \<open>
  The room invariant in the specification's words: a room is occupied if and only if
  exactly one booking that references it is checked in.
\<close>

definition room_invariant :: "db \<Rightarrow> bool" where
  "room_invariant d \<longleftrightarrow>
     (\<forall>r \<in> set (rooms d).
        r_status r = Occupied \<longleftrightarrow>
        length (filter (\<lambda>b. b_room_id b = Some (r_id r) \<and> b_status b = Checked_in)
                  (bookings d)) = 1)"

text \<open>The half of it that the operations keep: an occupied room has a checked-in guest.\<close>

definition occupied_has_guest :: "db \<Rightarrow> bool" where
  "occupied_has_guest d \<longleftrightarrow>
     (\<forall>r \<in> set (rooms d).
        r_status r = Occupied \<longrightarrow>
        (\<exists>b \<in> set (bookings d). b_room_id b = Some (r_id r) \<and> b_status b = Checked_in))"

text \<open>An operation releases its room unless it is a check-out whose second write failed.\<close>

fun room_released :: "operation \<Rightarrow> bool" where
  "room_released (CheckOut bookingId t_out t_upd t_room fail1 fail2) = (fail2 = None)"
| "room_released _ = True"

section \<open>The booking state machine the specification states\<close>


section \<open>More sample data\<close>

text \<open>
  The state after the two reservations of \<open>two_arrivals\<close>, the state after the first
  guest has arrived, and \<open>hotel_day\<close> after the reclamation and a new check-in of
  booking 1.
\<close>

definition cy :: booking where
  "cy = \<lparr>b_id = 11, b_hotel_id = Some 7, b_room_id = Some 201, b_guest_name = ''Cy'',
     b_check_in_date = 19732, b_check_out_date = 19734, b_actual_check_in = None,
     b_actual_check_out = None, b_status = Confirmed, b_total_amount = 20000,
     b_auto_checkout = False, b_created_at = 1704870000, b_updated_at = 1704870000\<rparr>"

definition di :: booking where
  "di = \<lparr>b_id = 12, b_hotel_id = Some 7, b_room_id = Some 201, b_guest_name = ''Di'',
     b_check_in_date = 19733, b_check_out_date = 19735, b_actual_check_in = None,
     b_actual_check_out = None, b_status = Confirmed, b_total_amount = 20000,
     b_auto_checkout = False, b_created_at = 1704870060, b_updated_at = 1704870060\<rparr>"

definition reserved :: db where
  "reserved = front_desk\<lparr>bookings := [cy, di]\<rparr>"

definition arrived :: db where
  "arrived = snd (checkIn 11 1704880000 1704880000 None None reserved)"

definition readmitted :: db where
  "readmitted = snd (checkIn 1 (ten_am + 3600) (ten_am + 3600) None None
                       (auto_checkout_rooms ten_am hotel_day))"

section \<open>What the insert of a booking requires\<close>

text \<open>
  What the insert of \<open>createBooking\<close> requires, collected from its branches: the amount
  fits the column, the three \<open>NOT NULL\<close> values are present, the id is unused, the hotel
  and the room exist when given.
\<close>

definition store_accepts :: "booking_input \<Rightarrow> uuid \<Rightarrow> db \<Rightarrow> bool" where
  "store_accepts booking fresh d \<longleftrightarrow>
     \<bar>or_default (i_total_amount booking) 0\<bar> < 10 ^ 10 \<and>
     i_guest_name booking \<noteq> None \<and> i_check_in_date booking \<noteq> None \<and>
     i_check_out_date booking \<noteq> None \<and>
     or_default (i_id booking) fresh \<notin> set (map b_id (bookings d)) \<and>
     references (i_hotel_id booking) (hotels d) \<and>
     references (i_room_id booking) (map r_id (rooms d))"

section \<open>A backward stay and a long log\<close>

text \<open>A reservation whose stay ends before it begins, at no price.\<close>

definition backwards :: booking_input where
  "backwards = reservation ''Flo'' 19735 19732 0"

text \<open>
  Two hotels, 7 with room 201 and 8 with room 801, and seventy log rows, one a day, every
  seventh of hotel 8 and the others of hotel 7; and the fifty rows that the dashboard of
  hotel 7 is shown.
\<close>

definition log_at :: "nat \<Rightarrow> auto_checkout_log" where
  "log_at n =
     \<lparr>l_hotel_id = Some (if n mod 7 = 0 then 8 else 7),
      l_room_id = Some (if n mod 7 = 0 then 801 else 201), l_booking_id = None, l_checkout_time = int n * 86400,
      l_reason = ''daily_auto_checkout_10am'', l_created_at = int n * 86400\<rparr>"

definition room801 :: room where
  "room801 = \<lparr>r_id = 801, r_hotel_id = Some 8, r_room_number = ''Room 801'',
     r_status = Available, r_last_checkout = None, r_updated_at = 0\<rparr>"

definition many_logs :: db where
  "many_logs = \<lparr>hotels = [7, 8], rooms = [room201, room801], bookings = [],
     auto_checkout_logs = map log_at [0..<70], room_status_history = []\<rparr>"

definition shown_logs :: "(auto_checkout_log \<times> string option \<times> string option) list" where
  "shown_logs = map (\<lambda>n. (log_at n, Some ''Room 201'', None)) (rev (filter (\<lambda>n. n mod 7 \<noteq> 0) [12..<70]))"

section \<open>Properties of the reclamation routine\<close>

lemma bookings_auto_checkout_rooms:
  "bookings (auto_checkout_rooms now d) =
     map (\<lambda>b. if stay_expired now b then auto_check_out now b else b) (bookings d)"
  by (simp add: auto_checkout_rooms_def Let_def)

lemma DATE_ten_am: "DATE ten_am = 19732"
  by (simp add: DATE_def ten_am_def)

text \<open>
  C2. The reclamation changes a booking exactly when its status is \<open>checked_in\<close> and its
  \<open>check_out_date\<close> is not after the reference date, and then checks it out as an automatic
  checkout at the reference time. A checked-in booking whose stay ends on the reference date
  is reclaimed; one whose stay ends the day after is left as it is.
\<close>

theorem reclamation_selects_expired:
  assumes "i < length (bookings d)"
  shows "length (bookings (auto_checkout_rooms now d)) = length (bookings d) \<and>
    (bookings (auto_checkout_rooms now d) ! i \<noteq> bookings d ! i \<longleftrightarrow>
       b_status (bookings d ! i) = Checked_in \<and> b_check_out_date (bookings d ! i) \<le> DATE now) \<and>
    (bookings (auto_checkout_rooms now d) ! i \<noteq> bookings d ! i \<longrightarrow>
       bookings (auto_checkout_rooms now d) ! i =
         (bookings d ! i)\<lparr>b_status := Checked_out, b_actual_check_out := Some now,
                          b_auto_checkout := True, b_updated_at := now\<rparr>) \<and>
    (b_status (bookings d ! i) = Checked_in \<and> b_check_out_date (bookings d ! i) = DATE now \<longrightarrow>
       b_status (bookings (auto_checkout_rooms now d) ! i) = Checked_out) \<and>
    (b_status (bookings d ! i) = Checked_in \<and> b_check_out_date (bookings d ! i) = DATE now + 1 \<longrightarrow>
       bookings (auto_checkout_rooms now d) ! i = bookings d ! i)"
proof -
  let ?b = "bookings d ! i"
  have nth: "bookings (auto_checkout_rooms now d) ! i =
      (if stay_expired now ?b then auto_check_out now ?b else ?b)"
    using assms by (simp add: bookings_auto_checkout_rooms)
  have changed: "auto_check_out now ?b \<noteq> ?b" if "stay_expired now ?b"
  proof
    assume "auto_check_out now ?b = ?b"
    then have "b_status (auto_check_out now ?b) = b_status ?b" by simp
    with that show False by (simp add: auto_check_out_def stay_expired_def)
  qed
  have len: "length (bookings (auto_checkout_rooms now d)) = length (bookings d)"
    by (simp add: bookings_auto_checkout_rooms)
  show ?thesis
    unfolding nth len using changed
    by (auto simp: stay_expired_def auto_check_out_def)
qed

theorem reclamation_selects_expired_witness:
  "0 < length (bookings hotel_day) \<and> 1 < length (bookings hotel_day) \<and>
   b_check_out_date (bookings hotel_day ! 0) = DATE ten_am \<and>
   bookings (auto_checkout_rooms ten_am hotel_day) ! 0 \<noteq> bookings hotel_day ! 0 \<and>
   b_status (bookings (auto_checkout_rooms ten_am hotel_day) ! 0) = Checked_out \<and>
   b_check_out_date (bookings hotel_day ! 1) = DATE ten_am + 1 \<and>
   bookings (auto_checkout_rooms ten_am hotel_day) ! 1 = bookings hotel_day ! 1"
  using reclamation_selects_expired [of 0 hotel_day ten_am]
    reclamation_selects_expired [of 1 hotel_day ten_am]
  by (simp add: hotel_day_def stay1_def stay2_def DATE_ten_am)

text \<open>
  A second run on the same date finds no booking to check out: the first run left none
  checked in with a stay that has ended.
\<close>

lemma not_expired_after:
  "DATE t2 \<le> DATE t1 \<Longrightarrow>
     \<not> stay_expired t2 (if stay_expired t1 b then auto_check_out t1 b else b)"
  by (auto simp: stay_expired_def auto_check_out_def)

lemma reclaim_again_bookings:
  assumes "DATE t2 \<le> DATE t1"
  shows "bookings (auto_checkout_rooms t2 (auto_checkout_rooms t1 d)) =
    bookings (auto_checkout_rooms t1 d)"
  using not_expired_after [OF assms]
  by (simp add: bookings_auto_checkout_rooms map_idI)

text \<open>
  C1. A second reclamation right after the first, at the same reference time, should add
  no audit record. On \<open>hotel_day\<close> the first run checks booking 1 out and writes one log
  row and one history row; the second run checks no booking out, and writes both rows
  again, because the two inserts select by the date of the checkout, not by what this run
  did. A second run one minute later also moves the room's \<open>last_checkout\<close>.
\<close>

theorem second_reclamation_logs_again:
  "auto_checkout_logs (auto_checkout_rooms ten_am hotel_day) = [log_of ten_am stay1] \<and>
   room_status_history (auto_checkout_rooms ten_am hotel_day) = [change_of ten_am room101] \<and>
   bookings (auto_checkout_rooms ten_am (auto_checkout_rooms ten_am hotel_day)) =
     bookings (auto_checkout_rooms ten_am hotel_day) \<and>
   auto_checkout_logs (auto_checkout_rooms ten_am (auto_checkout_rooms ten_am hotel_day)) =
     [log_of ten_am stay1, log_of ten_am stay1] \<and>
   room_status_history (auto_checkout_rooms ten_am (auto_checkout_rooms ten_am hotel_day)) =
     [change_of ten_am room101, change_of ten_am room101] \<and>
   map r_last_checkout (rooms (auto_checkout_rooms ten_am hotel_day)) = [Some ten_am, None] \<and>
   map r_last_checkout
     (rooms (auto_checkout_rooms (ten_am + 60) (auto_checkout_rooms ten_am hotel_day))) =
     [Some (ten_am + 60), None]"
  by code_simp

section \<open>The room invariant\<close>

lemma guest_createBooking:
  "occupied_has_guest d \<Longrightarrow> occupied_has_guest (snd (createBooking booking fresh now fail d))"
  by (auto simp: occupied_has_guest_def createBooking_def Let_def split: option.splits)

lemma filter_singleton_mem: "filter P xs = [b] \<Longrightarrow> b \<in> set xs \<and> P b"
  by (metis filter_eq_ConsD in_set_conv_decomp)

lemma filter_singleton_unique:
  assumes "filter P xs = [b]" "x \<in> set xs" "P x"
  shows "x = b"
proof -
  have "x \<in> set (filter P xs)" using assms(2,3) by simp
  then show ?thesis unfolding assms(1) by simp
qed

lemma guest_checkIn:
  assumes "occupied_has_guest d"
  shows "occupied_has_guest (snd (checkIn bookingId t_in t_upd fail1 fail2 d))"
proof (cases "fail1 = None \<and> (\<exists>b. filter (\<lambda>b. b_id b = bookingId) (bookings d) = [b])")
  case False
  then show ?thesis using assms
    by (auto simp: checkIn_def split: option.splits list.splits)
next
  case True
  then obtain b where b: "filter (\<lambda>b. b_id b = bookingId) (bookings d) = [b]" and f: "fail1 = None"
    by blast
  have bm: "b \<in> set (bookings d)" "b_id b = bookingId" using filter_singleton_mem[OF b] by auto
  show ?thesis
    unfolding occupied_has_guest_def
  proof (intro ballI impI)
    fix r assume r: "r \<in> set (rooms (snd (checkIn bookingId t_in t_upd fail1 fail2 d)))"
      and occ: "r_status r = Occupied"
    let ?bs = "map (\<lambda>x. if b_id x = bookingId then check_in_row t_in t_upd x else x) (bookings d)"
    have bs: "bookings (snd (checkIn bookingId t_in t_upd fail1 fail2 d)) = ?bs"
      using b f by (simp add: checkIn_def Let_def split: option.splits)
    have new: "check_in_row t_in t_upd b \<in> set ?bs" using bm by force
    consider (same) "r \<in> set (rooms d)" | (upd) "Some (r_id r) = b_room_id b"
      using r b f by (auto simp: checkIn_def Let_def check_in_row_def split: option.splits if_splits)
    then show "\<exists>b\<in>set (bookings (snd (checkIn bookingId t_in t_upd fail1 fail2 d))).
            b_room_id b = Some (r_id r) \<and> b_status b = Checked_in"
    proof cases
      case upd
      then show ?thesis unfolding bs using new
        by (intro bexI[of _ "check_in_row t_in t_upd b"]) (auto simp: check_in_row_def)
    next
      case same
      with assms occ obtain g where g: "g \<in> set (bookings d)" "b_room_id g = Some (r_id r)" "b_status g = Checked_in"
        by (auto simp: occupied_has_guest_def)
      then have "(if b_id g = bookingId then check_in_row t_in t_upd g else g) \<in> set ?bs" by force
      then show ?thesis unfolding bs using g
        by (intro bexI[of _ "(if b_id g = bookingId then check_in_row t_in t_upd g else g)"])
           (auto simp: check_in_row_def)
    qed
  qed
qed

lemma guest_checkOut:
  assumes "occupied_has_guest d"
  shows "occupied_has_guest (snd (checkOut bookingId t_out t_upd t_room fail1 None d))"
proof (cases "fail1 = None \<and> (\<exists>b. filter (\<lambda>b. b_id b = bookingId) (bookings d) = [b])")
  case False
  then show ?thesis using assms
    by (auto simp: checkOut_def split: option.splits list.splits)
next
  case True
  then obtain b where b: "filter (\<lambda>b. b_id b = bookingId) (bookings d) = [b]" and f: "fail1 = None"
    by blast
  let ?d' = "snd (checkOut bookingId t_out t_upd t_room fail1 None d)"
  let ?bs = "map (\<lambda>x. if b_id x = bookingId then check_out_row t_out t_upd x else x) (bookings d)"
  have bs: "bookings ?d' = ?bs"
    using b f by (simp add: checkOut_def Let_def)
  have rs: "rooms ?d' = map (\<lambda>r. if Some (r_id r) = b_room_id b
               then r\<lparr>r_status := Available, r_last_checkout := Some t_room\<rparr> else r) (rooms d)"
    using b f by (simp add: checkOut_def Let_def check_out_row_def)
  show ?thesis
    unfolding occupied_has_guest_def
  proof (intro ballI impI)
    fix r assume r: "r \<in> set (rooms ?d')" and occ: "r_status r = Occupied"
    from r occ have old: "r \<in> set (rooms d)" and other: "Some (r_id r) \<noteq> b_room_id b"
      unfolding rs by (auto split: if_splits)
    with assms occ obtain g where g: "g \<in> set (bookings d)" "b_room_id g = Some (r_id r)"
        "b_status g = Checked_in"
      by (auto simp: occupied_has_guest_def)
    have "b_id g \<noteq> bookingId"
    proof
      assume "b_id g = bookingId"
      then have "g = b" using filter_singleton_unique[OF b g(1)] by simp
      with g(2) other show False by simp
    qed
    then have "g \<in> set ?bs" using g(1) by force
    then show "\<exists>b\<in>set (bookings ?d'). b_room_id b = Some (r_id r) \<and> b_status b = Checked_in"
      unfolding bs using g by blast
  qed
qed

lemma rooms_auto_checkout_rooms:
  "rooms (auto_checkout_rooms now d) =
     map (\<lambda>r. if \<exists>b \<in> set (bookings d).
                    (stay_expired now b \<or> auto_checked_out_today now b) \<and> b_room_id b = Some (r_id r)
              then make_available now r else r) (rooms d)"
proof -
  define f where "f = (\<lambda>b. if stay_expired now b then auto_check_out now b else b)"
  define Q where "Q = (\<lambda>b. stay_expired now b \<or> auto_checked_out_today now b)"
  have eq: "auto_checked_out_today now (f b) \<longleftrightarrow> Q b" for b
    by (auto simp: f_def Q_def stay_expired_def auto_checked_out_today_def auto_check_out_def)
  have rid: "b_room_id (f b) = b_room_id b" for b
    by (simp add: f_def auto_check_out_def)
  have ids: "map b_room_id (filter (auto_checked_out_today now) (map f (bookings d)))
      = map b_room_id (filter Q (bookings d))"
    by (simp add: filter_map comp_def eq rid)
  have mem: "Some k \<in> set (map b_room_id (filter (auto_checked_out_today now) (map f (bookings d))))
     \<longleftrightarrow> (\<exists>b \<in> set (bookings d). Q b \<and> b_room_id b = Some k)" for k
    unfolding ids by (auto simp: image_iff)
  have "rooms (auto_checkout_rooms now d) =
      map (\<lambda>r. if Some (r_id r) \<in> set (map b_room_id (filter (auto_checked_out_today now)
                    (map f (bookings d))))
               then make_available now r else r) (rooms d)"
    by (simp add: auto_checkout_rooms_def Let_def f_def)
  then show ?thesis
    unfolding mem Q_def .
qed

lemma guest_auto_checkout_rooms:
  assumes "occupied_has_guest d"
  shows "occupied_has_guest (auto_checkout_rooms now d)"
  unfolding occupied_has_guest_def
proof (intro ballI impI)
  fix r assume r: "r \<in> set (rooms (auto_checkout_rooms now d))" and occ: "r_status r = Occupied"
  from r occ have old: "r \<in> set (rooms d)"
    and none: "\<not> (\<exists>b \<in> set (bookings d).
         (stay_expired now b \<or> auto_checked_out_today now b) \<and> b_room_id b = Some (r_id r))"
    unfolding rooms_auto_checkout_rooms by (auto simp: make_available_def split: if_splits)
  from assms old occ obtain g where g: "g \<in> set (bookings d)" "b_room_id g = Some (r_id r)"
      "b_status g = Checked_in"
    by (auto simp: occupied_has_guest_def)
  with none have "\<not> stay_expired now g" by blast
  then have "g \<in> set (bookings (auto_checkout_rooms now d))"
    using g(1) unfolding bookings_auto_checkout_rooms by force
  then show "\<exists>b\<in>set (bookings (auto_checkout_rooms now d)).
            b_room_id b = Some (r_id r) \<and> b_status b = Checked_in"
    using g by blast
qed

lemma guest_exec:
  "occupied_has_guest d \<Longrightarrow> room_released x \<Longrightarrow> occupied_has_guest (exec x d)"
  by (cases x) (simp_all add: guest_createBooking guest_checkIn guest_checkOut guest_auto_checkout_rooms)

text \<open>
  C3 (amended). From a state in which every occupied room has a checked-in booking, any
  sequence of createBooking, checkIn, checkOut and reclamation in which no check-out loses
  its room write leads to a state in which every occupied room has a checked-in booking.
\<close>

theorem occupied_room_has_guest:
  assumes "occupied_has_guest d" and "\<forall>x \<in> set xs. room_released x"
  shows "occupied_has_guest (run xs d)"
  using assms
proof (induction xs arbitrary: d)
  case Nil
  then show ?case by simp
next
  case (Cons x xs)
  then show ?case by (simp add: guest_exec)
qed

theorem occupied_room_has_guest_witness:
  "occupied_has_guest hotel_day \<and> list_all room_released busy_morning \<and>
   occupied_has_guest (run busy_morning hotel_day) \<and>
   map r_status (rooms (run busy_morning hotel_day)) = [Occupied, Available]"
proof -
  have h1: "occupied_has_guest hotel_day" by code_simp
  have h2: "\<forall>x \<in> set busy_morning. room_released x" by code_simp
  have after: "occupied_has_guest (run busy_morning hotel_day)"
    using occupied_room_has_guest [OF h1 h2] .
  have rest: "list_all room_released busy_morning \<and>
      map r_status (rooms (run busy_morning hotel_day)) = [Occupied, Available]"
    by code_simp
  show ?thesis using h1 after rest by simp
qed

text \<open>
  The invariant as the specification states it fails: \<open>front_desk\<close> satisfies it, and
  after the two reservations of room 201 and the check-in of both guests the room is
  occupied with two checked-in bookings.
\<close>

theorem two_guests_one_room_counterexample:
  "room_invariant front_desk \<and> \<not> room_invariant (run two_arrivals front_desk) \<and>
   map r_status (rooms (run two_arrivals front_desk)) = [Occupied] \<and>
   map b_status (bookings (run two_arrivals front_desk)) = [Checked_in, Checked_in] \<and>
   map b_room_id (bookings (run two_arrivals front_desk)) = [Some 201, Some 201]"
  by code_simp

section \<open>The front desk operations\<close>

lemma checkIn_one_row:
  assumes "filter (\<lambda>x. b_id x = bookingId) (bookings d) = [b]"
  shows "checkIn bookingId t_in t_upd None fail2 d =
    (Inr (check_in_row t_in t_upd b),
     d\<lparr>bookings := map (\<lambda>x. if b_id x = bookingId then check_in_row t_in t_upd x else x) (bookings d),
       rooms := (if fail2 = None
                 then map (\<lambda>r. if Some (r_id r) = b_room_id b then r\<lparr>r_status := Occupied\<rparr> else r) (rooms d)
                 else rooms d)\<rparr>)"
  using assms by (auto simp: checkIn_def Let_def check_in_row_def split: option.splits)

lemma checkOut_one_row:
  assumes "filter (\<lambda>x. b_id x = bookingId) (bookings d) = [b]"
  shows "checkOut bookingId t_out t_upd t_room None fail2 d =
    (Inr (check_out_row t_out t_upd b),
     d\<lparr>bookings := map (\<lambda>x. if b_id x = bookingId then check_out_row t_out t_upd x else x) (bookings d),
       rooms := (if fail2 = None
                 then map (\<lambda>r. if Some (r_id r) = b_room_id b
                    then r\<lparr>r_status := Available, r_last_checkout := Some t_room\<rparr> else r) (rooms d)
                 else rooms d)\<rparr>)"
  using assms by (auto simp: checkOut_def Let_def check_out_row_def split: option.splits)

lemma checkIn_failure:
  assumes "fst (checkIn bookingId t_in t_upd fail1 fail2 d) = Inl e"
  shows "snd (checkIn bookingId t_in t_upd fail1 fail2 d) = d \<and>
    (fail1 = Some e \<or> fail1 = None \<and> e = PGRST116 \<and> length (filter (\<lambda>x. b_id x = bookingId) (bookings d)) \<noteq> 1)"
  using assms by (auto simp: checkIn_def Let_def split: option.splits list.splits)

lemma checkOut_failure:
  assumes "fst (checkOut bookingId t_out t_upd t_room fail1 fail2 d) = Inl e"
  shows "snd (checkOut bookingId t_out t_upd t_room fail1 fail2 d) = d \<and>
    (fail1 = Some e \<or> fail1 = None \<and> e = PGRST116 \<and> length (filter (\<lambda>x. b_id x = bookingId) (bookings d)) \<noteq> 1)"
  using assms by (auto simp: checkOut_def Let_def split: option.splits list.splits)


lemma reserved_reached: "run (take 2 two_arrivals) front_desk = reserved"
  by code_simp




text \<open>
  C5 (amended). checkIn succeeds whenever the store accepts the first write and exactly one
  booking has the id, whatever the status of the booking and of its room: it sets the
  booking's status to checked_in, \<open>actual_check_in\<close> and \<open>updated_at\<close> to the clock readings,
  and, unless the second write fails, the status of the referenced room to occupied. When it
  fails, with the store's error or with \<open>PGRST116\<close> because no single booking has the id,
  nothing is changed.
\<close>

theorem checkIn_any_status:
  "(fail1 = None \<and> filter (\<lambda>x. b_id x = bookingId) (bookings d) = [b] \<longrightarrow>
      checkIn bookingId t_in t_upd fail1 fail2 d =
        (Inr (b\<lparr>b_status := Checked_in, b_actual_check_in := Some t_in, b_updated_at := t_upd\<rparr>),
         d\<lparr>bookings :=
             map (\<lambda>x. if b_id x = bookingId
                      then x\<lparr>b_status := Checked_in, b_actual_check_in := Some t_in,
                             b_updated_at := t_upd\<rparr>
                      else x) (bookings d),
           rooms :=
             (if fail2 = None
              then map (\<lambda>r. if Some (r_id r) = b_room_id b then r\<lparr>r_status := Occupied\<rparr> else r)
                     (rooms d)
              else rooms d)\<rparr>)) \<and>
   (fst (checkIn bookingId t_in t_upd fail1 fail2 d) = Inl e \<longrightarrow>
      snd (checkIn bookingId t_in t_upd fail1 fail2 d) = d \<and>
      (fail1 = Some e \<or>
       fail1 = None \<and> e = PGRST116 \<and>
       length (filter (\<lambda>x. b_id x = bookingId) (bookings d)) \<noteq> 1))"
  using checkIn_one_row [of bookingId d b t_in t_upd fail2]
    checkIn_failure [of bookingId t_in t_upd fail1 fail2 d e]
  by (auto simp: check_in_row_def)

theorem checkIn_any_status_witness:
  "filter (\<lambda>x. b_id x = 11) (bookings reserved) = [cy] \<and> b_status cy = Confirmed \<and>
   checkIn 11 5 6 None None reserved =
     (Inr (cy\<lparr>b_status := Checked_in, b_actual_check_in := Some 5, b_updated_at := 6\<rparr>),
      reserved\<lparr>bookings :=
                 [cy\<lparr>b_status := Checked_in, b_actual_check_in := Some 5, b_updated_at := 6\<rparr>, di],
               rooms := [room201\<lparr>r_status := Occupied\<rparr>]\<rparr>) \<and>
   fst (checkIn 99 5 6 None None reserved) = Inl PGRST116 \<and>
   snd (checkIn 99 5 6 None None reserved) = reserved"
proof -
  have h: "filter (\<lambda>x. b_id x = 11) (bookings reserved) = [cy]" by code_simp
  have f: "fst (checkIn 99 5 6 None None reserved) = Inl PGRST116" by code_simp
  have ev: "b_status cy = Confirmed \<and>
      map (\<lambda>x. if b_id x = 11
                then x\<lparr>b_status := Checked_in, b_actual_check_in := Some 5, b_updated_at := 6\<rparr>
                else x) (bookings reserved) =
        [cy\<lparr>b_status := Checked_in, b_actual_check_in := Some 5, b_updated_at := 6\<rparr>, di] \<and>
      map (\<lambda>r. if Some (r_id r) = b_room_id cy then r\<lparr>r_status := Occupied\<rparr> else r)
        (rooms reserved) = [room201\<lparr>r_status := Occupied\<rparr>]"
    by code_simp
  show ?thesis
    using h f ev
      checkIn_any_status [where ?fail1.0 = None and bookingId = 11 and d = reserved and b = cy
        and t_in = 5 and t_upd = 6 and ?fail2.0 = None]
      checkIn_any_status [where ?fail1.0 = None and bookingId = 99 and d = reserved
        and t_in = 5 and t_upd = 6 and ?fail2.0 = None and e = PGRST116]
    by simp
qed

text \<open>
  Neither guard of the specification exists. In \<open>arrived\<close> room 201 is occupied by
  booking 11: checkIn of booking 12, of the same room, succeeds, and checkIn of booking 11,
  which is not confirmed any more, succeeds and overwrites its \<open>actual_check_in\<close>.
\<close>

theorem checkIn_without_guard_counterexample:
  "map r_status (rooms arrived) = [Occupied] \<and>
   map b_status (bookings arrived) = [Checked_in, Confirmed] \<and>
   map b_room_id (bookings arrived) = [Some 201, Some 201] \<and>
   fst (checkIn 12 1704880900 1704880900 None None arrived) =
     Inr (di\<lparr>b_status := Checked_in, b_actual_check_in := Some 1704880900,
             b_updated_at := 1704880900\<rparr>) \<and>
   map b_status (bookings (snd (checkIn 12 1704880900 1704880900 None None arrived))) =
     [Checked_in, Checked_in] \<and>
   map b_actual_check_in (bookings arrived) = [Some 1704880000, None] \<and>
   fst (checkIn 11 1704882000 1704882000 None None arrived) =
     Inr (cy\<lparr>b_status := Checked_in, b_actual_check_in := Some 1704882000,
             b_updated_at := 1704882000\<rparr>) \<and>
   map b_actual_check_in (bookings (snd (checkIn 11 1704882000 1704882000 None None arrived))) =
     [Some 1704882000, None]"
  by code_simp

text \<open>
  C6 (amended). For the one booking with the given id, checked in, manual checkOut sets its
  status to checked_out and \<open>actual_check_out\<close> and \<open>updated_at\<close> to the clock readings, and
  leaves \<open>auto_checkout\<close> as it was; unless the second write fails, it sets the status of
  the referenced room to available and its \<open>last_checkout\<close> to the clock reading of that
  write.
\<close>

theorem manual_checkOut_effect:
  assumes "filter (\<lambda>x. b_id x = bookingId) (bookings d) = [b]" and "b_status b = Checked_in"
  shows "checkOut bookingId t_out t_upd t_room None fail2 d =
      (Inr (b\<lparr>b_status := Checked_out, b_actual_check_out := Some t_out, b_updated_at := t_upd\<rparr>),
       d\<lparr>bookings :=
           map (\<lambda>x. if b_id x = bookingId
                    then x\<lparr>b_status := Checked_out, b_actual_check_out := Some t_out,
                           b_updated_at := t_upd\<rparr>
                    else x) (bookings d),
         rooms :=
           (if fail2 = None
            then map (\<lambda>r. if Some (r_id r) = b_room_id b
                          then r\<lparr>r_status := Available, r_last_checkout := Some t_room\<rparr> else r)
                   (rooms d)
            else rooms d)\<rparr>) \<and>
    b_auto_checkout
      (b\<lparr>b_status := Checked_out, b_actual_check_out := Some t_out, b_updated_at := t_upd\<rparr>) =
      b_auto_checkout b"
  using checkOut_one_row [OF assms(1), of t_out t_upd t_room fail2]
  by (simp add: check_out_row_def)

theorem manual_checkOut_effect_witness:
  "filter (\<lambda>x. b_id x = 2) (bookings hotel_day) = [stay2] \<and> b_status stay2 = Checked_in \<and>
   checkOut 2 5 6 7 None None hotel_day =
     (Inr (stay2\<lparr>b_status := Checked_out, b_actual_check_out := Some 5, b_updated_at := 6\<rparr>),
      hotel_day\<lparr>bookings :=
          [stay1, stay2\<lparr>b_status := Checked_out, b_actual_check_out := Some 5, b_updated_at := 6\<rparr>],
        rooms := [room101, room102\<lparr>r_status := Available, r_last_checkout := Some 7\<rparr>]\<rparr>) \<and>
   b_auto_checkout
     (stay2\<lparr>b_status := Checked_out, b_actual_check_out := Some 5, b_updated_at := 6\<rparr>) = False"
proof -
  have h1: "filter (\<lambda>x. b_id x = 2) (bookings hotel_day) = [stay2]" by code_simp
  have h2: "b_status stay2 = Checked_in" by code_simp
  have ev: "map (\<lambda>x. if b_id x = 2
                then x\<lparr>b_status := Checked_out, b_actual_check_out := Some 5, b_updated_at := 6\<rparr>
                else x) (bookings hotel_day) =
        [stay1, stay2\<lparr>b_status := Checked_out, b_actual_check_out := Some 5, b_updated_at := 6\<rparr>] \<and>
      map (\<lambda>r. if Some (r_id r) = b_room_id stay2
               then r\<lparr>r_status := Available, r_last_checkout := Some 7\<rparr> else r)
        (rooms hotel_day) = [room101, room102\<lparr>r_status := Available, r_last_checkout := Some 7\<rparr>] \<and>
      b_auto_checkout stay2 = False"
    by code_simp
  show ?thesis
    using h1 h2 ev manual_checkOut_effect [OF h1 h2, of 5 6 7 None]
    by simp
qed

text \<open>
  checkOut never writes \<open>auto_checkout\<close>. In \<open>readmitted\<close> booking 1 is checked in and
  carries the flag of its earlier automatic checkout; after the manual checkOut the flag is
  still set.
\<close>

theorem manual_checkOut_keeps_flag_counterexample:
  "map b_status (bookings readmitted) = [Checked_in, Checked_in] \<and>
   map b_auto_checkout (bookings readmitted) = [True, False] \<and>
   map_sum id b_status
     (fst (checkOut 1 (ten_am + 7200) (ten_am + 7200) (ten_am + 7201) None None readmitted)) =
     Inr Checked_out \<and>
   map_sum id b_auto_checkout
     (fst (checkOut 1 (ten_am + 7200) (ten_am + 7200) (ten_am + 7201) None None readmitted)) =
     Inr True \<and>
   map b_auto_checkout
     (bookings (snd (checkOut 1 (ten_am + 7200) (ten_am + 7200) (ten_am + 7201) None None
                       readmitted))) = [True, False]"
  by code_simp

text \<open>
  C10. When the room write of checkIn or checkOut fails, the call still returns the updated
  booking and raises nothing: the booking has made its transition in the store and every
  room is as it was.
\<close>

theorem room_write_failure_ignored:
  assumes "filter (\<lambda>x. b_id x = bookingId) (bookings d) = [b]"
  shows "fst (checkIn bookingId t_in t_upd None (Some e) d) =
      Inr (b\<lparr>b_status := Checked_in, b_actual_check_in := Some t_in, b_updated_at := t_upd\<rparr>) \<and>
    b\<lparr>b_status := Checked_in, b_actual_check_in := Some t_in, b_updated_at := t_upd\<rparr>
      \<in> set (bookings (snd (checkIn bookingId t_in t_upd None (Some e) d))) \<and>
    rooms (snd (checkIn bookingId t_in t_upd None (Some e) d)) = rooms d \<and>
    fst (checkOut bookingId t_out t_upd t_room None (Some e) d) =
      Inr (b\<lparr>b_status := Checked_out, b_actual_check_out := Some t_out, b_updated_at := t_upd\<rparr>) \<and>
    b\<lparr>b_status := Checked_out, b_actual_check_out := Some t_out, b_updated_at := t_upd\<rparr>
      \<in> set (bookings (snd (checkOut bookingId t_out t_upd t_room None (Some e) d))) \<and>
    rooms (snd (checkOut bookingId t_out t_upd t_room None (Some e) d)) = rooms d"
proof -
  have bm: "b \<in> set (bookings d)" "b_id b = bookingId"
    using filter_singleton_mem [OF assms] by auto
  have "check_in_row t_in t_upd b \<in>
      set (map (\<lambda>x. if b_id x = bookingId then check_in_row t_in t_upd x else x) (bookings d))"
    using bm by force
  moreover have "check_out_row t_out t_upd b \<in>
      set (map (\<lambda>x. if b_id x = bookingId then check_out_row t_out t_upd x else x) (bookings d))"
    using bm by force
  ultimately show ?thesis
    unfolding checkIn_one_row [OF assms] checkOut_one_row [OF assms]
    by (simp add: check_in_row_def check_out_row_def)
qed

theorem room_write_failure_ignored_witness:
  "filter (\<lambda>x. b_id x = 1) (bookings hotel_day) = [stay1] \<and>
   fst (checkOut 1 5 6 7 None (Some Unavailable) hotel_day) =
     Inr (stay1\<lparr>b_status := Checked_out, b_actual_check_out := Some 5, b_updated_at := 6\<rparr>) \<and>
   map b_status (bookings (snd (checkOut 1 5 6 7 None (Some Unavailable) hotel_day))) =
     [Checked_out, Checked_in] \<and>
   rooms (snd (checkOut 1 5 6 7 None (Some Unavailable) hotel_day)) = rooms hotel_day \<and>
   map r_status (rooms hotel_day) = [Occupied, Occupied]"
proof -
  have h: "filter (\<lambda>x. b_id x = 1) (bookings hotel_day) = [stay1]" by code_simp
  have ev: "map b_status (bookings (snd (checkOut 1 5 6 7 None (Some Unavailable) hotel_day))) =
     [Checked_out, Checked_in] \<and> map r_status (rooms hotel_day) = [Occupied, Occupied]"
    by code_simp
  show ?thesis
    using h ev room_write_failure_ignored [OF h, of 5 6 Unavailable 5 7]
    by simp
qed

section \<open>The rooms the reclamation releases\<close>

text \<open>
  C7 (amended). The reclamation sets a room that an expired booking references to available,
  with \<open>last_checkout\<close> and \<open>updated_at\<close> the reference time, whatever the room's status
  was; a room referenced neither by an expired booking nor by a booking already checked out
  automatically on the reference date is left unchanged.
\<close>

theorem reclamation_releases_any_status:
  assumes "j < length (rooms d)"
  shows "((\<exists>b \<in> set (bookings d). stay_expired now b \<and> b_room_id b = Some (r_id (rooms d ! j))) \<longrightarrow>
      rooms (auto_checkout_rooms now d) ! j =
        (rooms d ! j)\<lparr>r_status := Available, r_last_checkout := Some now, r_updated_at := now\<rparr>) \<and>
    (\<not> (\<exists>b \<in> set (bookings d).
           (stay_expired now b \<or> auto_checked_out_today now b) \<and>
           b_room_id b = Some (r_id (rooms d ! j))) \<longrightarrow>
      rooms (auto_checkout_rooms now d) ! j = rooms d ! j)"
  using assms unfolding rooms_auto_checkout_rooms
  by (auto simp: make_available_def)

theorem reclamation_releases_any_status_witness:
  "0 < length (rooms maintenance_day) \<and> r_status (rooms maintenance_day ! 0) = Maintenance \<and>
   stay_expired ten_am stay1 \<and> b_room_id stay1 = Some (r_id (rooms maintenance_day ! 0)) \<and>
   rooms (auto_checkout_rooms ten_am maintenance_day) ! 0 =
     (rooms maintenance_day ! 0)\<lparr>r_status := Available, r_last_checkout := Some ten_am,
                                  r_updated_at := ten_am\<rparr> \<and>
   rooms (auto_checkout_rooms ten_am maintenance_day) ! 1 = rooms maintenance_day ! 1"
proof -
  have h0: "0 < length (rooms maintenance_day)" and h1: "1 < length (rooms maintenance_day)"
    by code_simp+
  have a: "\<exists>b \<in> set (bookings maintenance_day).
      stay_expired ten_am b \<and> b_room_id b = Some (r_id (rooms maintenance_day ! 0))"
    by code_simp
  have b: "\<not> (\<exists>b \<in> set (bookings maintenance_day).
           (stay_expired ten_am b \<or> auto_checked_out_today ten_am b) \<and>
           b_room_id b = Some (r_id (rooms maintenance_day ! 1)))"
    by code_simp
  have c: "r_status (rooms maintenance_day ! 0) = Maintenance \<and>
   stay_expired ten_am stay1 \<and> b_room_id stay1 = Some (r_id (rooms maintenance_day ! 0))"
    by code_simp
  show ?thesis
    using h0 a b c reclamation_releases_any_status [OF h0, of ten_am]
      reclamation_releases_any_status [OF h1, of ten_am]
    by simp
qed

text \<open>
  A room under maintenance whose guest's stay has ended is made available by the
  reclamation, and the history records a change from occupied.
\<close>

theorem maintenance_room_released_counterexample:
  "r_status (rooms maintenance_day ! 0) = Maintenance \<and>
   r_last_checkout (rooms maintenance_day ! 0) = None \<and>
   r_status (rooms (auto_checkout_rooms ten_am maintenance_day) ! 0) = Available \<and>
   r_last_checkout (rooms (auto_checkout_rooms ten_am maintenance_day) ! 0) = Some ten_am \<and>
   room_status_history (auto_checkout_rooms ten_am maintenance_day) =
     [change_of ten_am (rooms maintenance_day ! 0)]"
  by code_simp

section \<open>Creating a booking\<close>

lemma createBooking_rejects:
  "fst (createBooking booking fresh now fail d) = Inl e \<Longrightarrow>
     snd (createBooking booking fresh now fail d) = d"
  by (auto simp: createBooking_def Let_def split: option.splits if_splits)

lemma createBooking_creates:
  assumes "fst (createBooking booking fresh now fail d) = Inr data"
  shows "snd (createBooking booking fresh now fail d) = d\<lparr>bookings := bookings d @ [data]\<rparr> \<and>
    b_status data = or_default (i_status booking) Confirmed \<and>
    i_check_in_date booking = Some (b_check_in_date data) \<and>
    i_check_out_date booking = Some (b_check_out_date data) \<and>
    b_total_amount data = or_default (i_total_amount booking) 0"
  using assms
  by (auto simp: createBooking_def Let_def split: option.splits if_splits)

lemma createBooking_succeeds_iff:
  "(\<exists>data. fst (createBooking booking fresh now fail d) = Inr data) \<longleftrightarrow>
     fail = None \<and> store_accepts booking fresh d"
  by (auto simp: createBooking_def store_accepts_def Let_def split: option.splits if_splits)

lemma store_accepts_any_dates:
  "store_accepts booking fresh d \<Longrightarrow> \<bar>amount\<bar> < 10 ^ 10 \<Longrightarrow>
     store_accepts (booking\<lparr>i_check_in_date := Some date_in, i_check_out_date := Some date_out,
                            i_total_amount := Some amount\<rparr>) fresh d"
  by (simp add: store_accepts_def or_default_def)

text \<open>
  C8 (amended). createBooking validates neither the dates nor the price. It succeeds exactly
  when the store does not fail and accepts the insert, and an accepted booking stays
  accepted with any two dates and any amount that fits the column. The booking it creates
  has the dates and the amount it was given and the status it was given, confirmed when
  none was given; a booking created by the form's handler has status confirmed. A rejected
  insert changes nothing.
\<close>

theorem createBooking_no_validation:
  "(fst (createBooking booking fresh now fail d) = Inl e \<longrightarrow>
      snd (createBooking booking fresh now fail d) = d) \<and>
   (fst (createBooking booking fresh now fail d) = Inr data \<longrightarrow>
      snd (createBooking booking fresh now fail d) = d\<lparr>bookings := bookings d @ [data]\<rparr> \<and>
      b_status data = or_default (i_status booking) Confirmed \<and>
      i_check_in_date booking = Some (b_check_in_date data) \<and>
      i_check_out_date booking = Some (b_check_out_date data) \<and>
      b_total_amount data = or_default (i_total_amount booking) 0) \<and>
   ((\<exists>created. fst (createBooking booking fresh now fail d) = Inr created) \<longleftrightarrow>
      fail = None \<and> store_accepts booking fresh d) \<and>
   (store_accepts booking fresh d \<and> \<bar>amount\<bar> < 10 ^ 10 \<longrightarrow>
      (\<exists>created.
         fst (createBooking
                (booking\<lparr>i_check_in_date := Some date_in, i_check_out_date := Some date_out,
                         i_total_amount := Some amount\<rparr>) fresh now None d) = Inr created)) \<and>
   (fst (createBooking (form_booking bookingForm selectedRoom selectedHotel) fresh now fail d) =
      Inr data \<longrightarrow> b_status data = Confirmed)"
proof -
  have form: "b_status data = Confirmed"
    if "fst (createBooking (form_booking bookingForm selectedRoom selectedHotel) fresh now fail d) =
      Inr data"
    using createBooking_creates [OF that] by (simp add: form_booking_def or_default_def)
  have dates: "\<exists>created.
         fst (createBooking
                (booking\<lparr>i_check_in_date := Some date_in, i_check_out_date := Some date_out,
                         i_total_amount := Some amount\<rparr>) fresh now None d) = Inr created"
    if "store_accepts booking fresh d" "\<bar>amount\<bar> < 10 ^ 10"
    using store_accepts_any_dates [OF that] createBooking_succeeds_iff by blast
  show ?thesis
    using createBooking_rejects [of booking fresh now fail d e]
      createBooking_creates [of booking fresh now fail d data]
      createBooking_succeeds_iff [of booking fresh now fail d] form dates
    by blast
qed

theorem createBooking_no_validation_witness:
  "store_accepts (reservation ''Cy'' 19732 19734 20000) 11 front_desk \<and>
   createBooking (reservation ''Cy'' 19732 19734 20000) 11 1704870000 None front_desk =
     (Inr cy, front_desk\<lparr>bookings := [cy]\<rparr>) \<and>
   b_status cy = Confirmed \<and>
   fst (createBooking ((reservation ''Cy'' 19732 19734 20000)\<lparr>i_room_id := Some 999\<rparr>)
          11 1704870000 None front_desk) = Inl ForeignKeyViolation \<and>
   snd (createBooking ((reservation ''Cy'' 19732 19734 20000)\<lparr>i_room_id := Some 999\<rparr>)
          11 1704870000 None front_desk) = front_desk"
proof -
  have ev: "store_accepts (reservation ''Cy'' 19732 19734 20000) 11 front_desk \<and>
      fst (createBooking (reservation ''Cy'' 19732 19734 20000) 11 1704870000 None front_desk) = Inr cy \<and>
      b_status cy = Confirmed \<and> bookings front_desk @ [cy] = [cy] \<and>
      fst (createBooking ((reservation ''Cy'' 19732 19734 20000)\<lparr>i_room_id := Some 999\<rparr>)
          11 1704870000 None front_desk) = Inl ForeignKeyViolation"
    by code_simp
  show ?thesis
    using ev
      createBooking_no_validation [where booking = "reservation ''Cy'' 19732 19734 20000"
        and fresh = 11 and now = 1704870000 and fail = None and d = front_desk and data = cy]
      createBooking_no_validation [where
        booking = "(reservation ''Cy'' 19732 19734 20000)\<lparr>i_room_id := Some 999\<rparr>"
        and fresh = 11 and now = 1704870000 and fail = None and d = front_desk
        and e = ForeignKeyViolation]
    by (simp add: prod_eq_iff)
qed

text \<open>
  A stay that ends three days before it begins, at price 0, is created, with status
  confirmed; so is a booking whose status is given as checked_out; and the form's handler
  creates the backward stay with the negative total it has computed.
\<close>

theorem createBooking_unvalidated_counterexample:
  "i_check_in_date backwards = Some 19735 \<and> i_check_out_date backwards = Some 19732 \<and>
   i_total_amount backwards = Some 0 \<and>
   map_sum id b_status (fst (createBooking backwards 13 1704870000 None front_desk)) =
     Inr Confirmed \<and>
   map b_check_in_date (bookings (snd (createBooking backwards 13 1704870000 None front_desk))) =
     [19735] \<and>
   map b_check_out_date (bookings (snd (createBooking backwards 13 1704870000 None front_desk))) =
     [19732] \<and>
   map b_total_amount (bookings (snd (createBooking backwards 13 1704870000 None front_desk))) =
     [0] \<and>
   map b_status
     (bookings (snd (createBooking (backwards\<lparr>i_status := Some Checked_out\<rparr>) 13 1704870000 None
                       front_desk))) = [Checked_out] \<and>
   handleBookingSubmit
     \<lparr>guestName = ''Flo'', checkInDate = 19735, checkOutDate = 19732, totalAmount = - 30000\<rparr>
     (Some room201) (Some 7) 13 1704870000 None front_desk =
     (Some ''Booking created successfully!'',
      front_desk\<lparr>bookings :=
        [\<lparr>b_id = 13, b_hotel_id = Some 7, b_room_id = Some 201, b_guest_name = ''Flo'',
          b_check_in_date = 19735, b_check_out_date = 19732, b_actual_check_in = None,
          b_actual_check_out = None, b_status = Confirmed, b_total_amount = - 30000,
          b_auto_checkout = False, b_created_at = 1704870000, b_updated_at = 1704870000\<rparr>]\<rparr>)"
  by code_simp

section \<open>The auto-checkout logs of a hotel\<close>

lemma fst_embed: "map fst (map (embed d) ls) = ls"
  by (induction ls) (simp_all add: embed_def)

lemma newest_first_sorted:
  "sorted_wrt (\<lambda>x y. l_created_at y \<le> l_created_at x) (newest_first ls)"
proof -
  have "sorted (map (\<lambda>l. - l_created_at l) (newest_first ls))"
    by (simp add: newest_first_def)
  then show ?thesis
    by (simp add: sorted_wrt_map)
qed

lemma take_drop_ordered:
  assumes "sorted_wrt R ys" "x \<in> set (take n ys)" "y \<in> set (drop n ys)"
  shows "R x y"
proof -
  have "sorted_wrt R (take n ys @ drop n ys)" using assms(1) by simp
  then show ?thesis using assms(2,3) unfolding sorted_wrt_append by blast
qed

lemma mset_minus_take: "mset ys - mset (take n ys) = mset (drop n ys)"
proof -
  have "mset ys = mset (take n ys) + mset (drop n ys)"
    by (metis append_take_drop_id mset_append)
  then show ?thesis by simp
qed

lemma logs_rows_properties:
  assumes "getAutoCheckoutLogs hotelId fail d = Inr rows"
  shows "length rows \<le> 50 \<and>
    length rows = min 50 (length (filter (\<lambda>l. l_hotel_id l = Some hotelId) (auto_checkout_logs d))) \<and>
    sorted_wrt (\<lambda>x y. l_created_at (fst y) \<le> l_created_at (fst x)) rows \<and>
    mset (map fst rows) \<subseteq># mset (filter (\<lambda>l. l_hotel_id l = Some hotelId) (auto_checkout_logs d)) \<and>
    (\<forall>l \<in># mset (filter (\<lambda>l. l_hotel_id l = Some hotelId) (auto_checkout_logs d)) - mset (map fst rows).
       \<forall>row \<in> set rows. l_created_at l \<le> l_created_at (fst row)) \<and>
    (\<forall>row \<in> set rows. row = embed d (fst row))"
proof -
  define L where "L = filter (\<lambda>l. l_hotel_id l = Some hotelId) (auto_checkout_logs d)"
  define ys where "ys = newest_first L"
  have rows: "rows = map (embed d) (take 50 ys)"
    using assms by (auto simp: getAutoCheckoutLogs_def L_def ys_def split: option.splits)
  have firsts: "map fst rows = take 50 ys"
    by (simp only: rows fst_embed)
  have len: "length ys = length L" and ms: "mset ys = mset L"
    by (simp_all add: ys_def newest_first_def)
  have sorted_ys: "sorted_wrt (\<lambda>x y. l_created_at y \<le> l_created_at x) ys"
    by (simp add: ys_def newest_first_sorted)
  have 1: "length rows = min 50 (length L)"
    by (simp add: rows len min.commute)
  have "sorted_wrt (\<lambda>x y. l_created_at y \<le> l_created_at x) (map fst rows)"
    unfolding firsts using sorted_ys by (rule sorted_wrt_take)
  then have 2: "sorted_wrt (\<lambda>x y. l_created_at (fst y) \<le> l_created_at (fst x)) rows"
    by (simp add: sorted_wrt_map)
  have 3: "mset (map fst rows) \<subseteq># mset L"
    unfolding firsts ms [symmetric] by (metis append_take_drop_id mset_append mset_subset_eq_add_left)
  have rest: "mset L - mset (map fst rows) = mset (drop 50 ys)"
    unfolding firsts ms [symmetric] by (rule mset_minus_take)
  have 4: "\<forall>l \<in># mset L - mset (map fst rows). \<forall>row \<in> set rows. l_created_at l \<le> l_created_at (fst row)"
  proof (intro ballI)
    fix l row assume l: "l \<in># mset L - mset (map fst rows)" and row: "row \<in> set rows"
    from l have "l \<in> set (drop 50 ys)" unfolding rest by simp
    moreover from row have "fst row \<in> set (take 50 ys)" unfolding firsts [symmetric] by simp
    ultimately show "l_created_at l \<le> l_created_at (fst row)"
      using take_drop_ordered [OF sorted_ys] by blast
  qed
  have 5: "\<forall>row \<in> set rows. row = embed d (fst row)"
    unfolding rows by (auto simp: embed_def)
  show ?thesis
    using 1 2 3 4 5 unfolding L_def by simp
qed

lemma logs_returned: "\<exists>rows. getAutoCheckoutLogs hotelId None d = Inr rows"
  by (simp add: getAutoCheckoutLogs_def)

text \<open>
  C9. For every hotel id and every state, getAutoCheckoutLogs, when the store answers the
  query, returns rows: at most 50 of them, as many as the hotel has when it has fewer; they
  are rows of the hotel, each with its embedded room number and guest name, ordered by
  \<open>created_at\<close> descending; and no row of the hotel that is left out is newer than a row
  that is returned. When the store reports an error, the call throws that error.
\<close>

theorem logs_newest_first_capped:
  "(\<exists>rows. getAutoCheckoutLogs hotelId None d = Inr rows \<and>
      length rows \<le> 50 \<and>
      length rows =
        min 50 (length (filter (\<lambda>l. l_hotel_id l = Some hotelId) (auto_checkout_logs d))) \<and>
      sorted_wrt (\<lambda>x y. l_created_at (fst y) \<le> l_created_at (fst x)) rows \<and>
      mset (map fst rows) \<subseteq>#
        mset (filter (\<lambda>l. l_hotel_id l = Some hotelId) (auto_checkout_logs d)) \<and>
      (\<forall>l \<in># mset (filter (\<lambda>l. l_hotel_id l = Some hotelId) (auto_checkout_logs d))
                - mset (map fst rows).
         \<forall>row \<in> set rows. l_created_at l \<le> l_created_at (fst row)) \<and>
      (\<forall>row \<in> set rows. row = embed d (fst row))) \<and>
   getAutoCheckoutLogs hotelId (Some e) d = Inl e"
proof -
  obtain rows where rows: "getAutoCheckoutLogs hotelId None d = Inr rows"
    using logs_returned by blast
  have failure: "getAutoCheckoutLogs hotelId (Some e) d = Inl e"
    by (simp add: getAutoCheckoutLogs_def)
  show ?thesis
    using rows logs_rows_properties [OF rows] failure by blast
qed

theorem logs_newest_first_capped_witness:
  "getAutoCheckoutLogs 7 None many_logs = Inr shown_logs \<and>
   length (filter (\<lambda>l. l_hotel_id l = Some 7) (auto_checkout_logs many_logs)) = 60 \<and>
   length shown_logs = 50 \<and>
   map (l_created_at \<circ> fst) (take 3 shown_logs) = [69 * 86400, 68 * 86400, 67 * 86400] \<and>
   sorted_wrt (\<lambda>x y. l_created_at (fst y) \<le> l_created_at (fst x)) shown_logs \<and>
   getAutoCheckoutLogs 7 (Some Unavailable) many_logs = Inl Unavailable"
proof -
  have h: "getAutoCheckoutLogs 7 None many_logs = Inr shown_logs" by code_simp
  have ev: "length (filter (\<lambda>l. l_hotel_id l = Some 7) (auto_checkout_logs many_logs)) = 60 \<and>
   map (l_created_at \<circ> fst) (take 3 shown_logs) = [69 * 86400, 68 * 86400, 67 * 86400]"
    by code_simp
  obtain rows where rows: "getAutoCheckoutLogs 7 None many_logs = Inr rows"
    and len: "length rows =
        min 50 (length (filter (\<lambda>l. l_hotel_id l = Some 7) (auto_checkout_logs many_logs)))"
    and srt: "sorted_wrt (\<lambda>x y. l_created_at (fst y) \<le> l_created_at (fst x)) rows"
    and failure: "getAutoCheckoutLogs 7 (Some Unavailable) many_logs = Inl Unavailable"
    using logs_newest_first_capped [of 7 many_logs Unavailable] by blast
  have same: "rows = shown_logs" using rows h by simp
  show ?thesis
    using h ev len srt failure unfolding same by simp
qed

end
